theory Spec2Isabelle
  imports Main "HOL-Library.Word"
begin

unbundle bit_operations_syntax

section \<open>The kernel heap of kheap.c\<close>

text \<open>
  The allocator of \<^verbatim>\<open>src/kheap.c\<close> manages the bytes between \<^verbatim>\<open>start_address\<close>
  and \<^verbatim>\<open>end_address\<close> as blocks, each with a \<^verbatim>\<open>struct header\<close> at its low end and
  a \<^verbatim>\<open>struct footer\<close> at its high end, and keeps the headers of the free blocks in a
  sorted array.

  Addresses and \<^verbatim>\<open>size_t\<close> values are 32-bit words: the page mask the code writes out,
  \<^verbatim>\<open>0xFFFFF000\<close>, is the mask of a 32-bit address. Arithmetic on them wraps around.
\<close>

type_synonym addr = "32 word"

subsection \<open>What the missing headers declare\<close>

text \<open>
  \<^verbatim>\<open>kheap.h\<close>, \<^verbatim>\<open>common.h\<close> and \<^verbatim>\<open>sorted_array.h\<close> are not among the sources.
  The sizes of the structs they declare, the magic value and the capacity of the free
  list are parameters of the model, collected in a record that every function takes.
\<close>

record layout =
  HEAP_MAGIC :: addr
  HEAP_FREE_LIST_SIZE :: addr
  sizeof_header :: addr
  sizeof_footer :: addr
  sizeof_ptr :: addr
  sizeof_sorted_array :: addr
  sizeof_heap :: addr

text \<open>
  Modelled from the spec: the macros \<^verbatim>\<open>PAGE_SIZE\<close> and \<^verbatim>\<open>PAGE_MASK\<close> of the missing
  \<^verbatim>\<open>common.h\<close>. The spec speaks of the platform page size; the values are those
  \<^verbatim>\<open>kheap.c\<close> itself writes as literals (\<^verbatim>\<open>0x1000 /* page size */\<close>, \<^verbatim>\<open>0xFFFFF000\<close>).
\<close>

definition PAGE_SIZE :: addr where
  "PAGE_SIZE = 0x1000"

definition PAGE_MASK :: addr where
  "PAGE_MASK = 0xFFFFF000"

subsection \<open>Memory and the heap structure\<close>

text \<open>
  Memory is a store per struct field, indexed by the address of the struct: the fields
  \<^verbatim>\<open>magic\<close>, \<^verbatim>\<open>allocated\<close> and \<^verbatim>\<open>size\<close> of a \<^verbatim>\<open>struct header\<close> at address \<open>a\<close>
  are \<open>hdr_magic m a\<close>, \<open>hdr_allocated m a\<close> and \<open>hdr_size m a\<close>, the fields
  \<^verbatim>\<open>magic\<close> and \<^verbatim>\<open>header\<close> of a \<^verbatim>\<open>struct footer\<close> at \<open>a\<close> are \<open>ftr_magic m a\<close> and
  \<open>ftr_header m a\<close>. A write through a header pointer changes the header stores at that
  address only. (Structs that overlap byte-wise at different addresses are therefore
  independent in the model; the byte layout is not known.)
\<close>

record memory =
  hdr_magic :: "addr \<Rightarrow> addr"
  hdr_allocated :: "addr \<Rightarrow> addr"
  hdr_size :: "addr \<Rightarrow> addr"
  ftr_magic :: "addr \<Rightarrow> addr"
  ftr_header :: "addr \<Rightarrow> addr"

text \<open>
  \<^verbatim>\<open>struct heap\<close>: the free list (the array of header addresses, in the order the
  sorted array holds them) and the three addresses, together with the memory the heap
  manages.
\<close>

record heap = memory +
  free_list :: "addr list"
  start_address :: addr
  end_address :: addr
  max_address :: addr

subsection \<open>The sorted array\<close>

definition header_less_than :: "'a memory_scheme \<Rightarrow> addr \<Rightarrow> addr \<Rightarrow> bool" where
  "header_less_than m a b = (hdr_size m a < hdr_size m b)"

text \<open>
  Modelled from the spec: \<^verbatim>\<open>sorted_array_insert\<close> of the missing \<^verbatim>\<open>sorted_array.c\<close>.
  The spec gives an ordered sequence kept ascending by the supplied comparator: the item
  goes in front of the first entry that is not less than it. The comparator reads the
  sizes in memory at the time of the insertion. The capacity of the array is not modelled.
\<close>

fun insert_ordered :: "(addr \<Rightarrow> addr \<Rightarrow> bool) \<Rightarrow> addr \<Rightarrow> addr list \<Rightarrow> addr list" where
  "insert_ordered lt item [] = [item]"
| "insert_ordered lt item (x # xs) =
     (if lt x item then x # insert_ordered lt item xs else item # x # xs)"

definition sorted_array_insert :: "addr \<Rightarrow> heap \<Rightarrow> heap" where
  "sorted_array_insert item h =
     h\<lparr>free_list := insert_ordered (header_less_than h) item (free_list h)\<rparr>"

text \<open>
  Modelled from the spec: \<^verbatim>\<open>sorted_array_remove\<close> of the missing \<^verbatim>\<open>sorted_array.c\<close>,
  the spec's remove-by-index. The spec does not say what an index outside the sequence
  does; the model leaves the sequence as it is there.
\<close>

definition sorted_array_remove :: "nat \<Rightarrow> heap \<Rightarrow> heap" where
  "sorted_array_remove i h = h\<lparr>free_list := take i (free_list h) @ drop (Suc i) (free_list h)\<rparr>"

text \<open>
  Modelled from the spec: \<^verbatim>\<open>sorted_array_lookup\<close> of the missing \<^verbatim>\<open>sorted_array.c\<close>,
  the spec's indexed lookup. The code calls it with indices below the size only.
\<close>

definition sorted_array_lookup :: "nat \<Rightarrow> heap \<Rightarrow> addr" where
  "sorted_array_lookup i h = free_list h ! i"

subsection \<open>align, heap_create, heap_resize\<close>

definition align :: "addr \<Rightarrow> addr" where
  "align p = p AND PAGE_MASK"

text \<open>\<^verbatim>\<open>add_hole\<close> writes the three header fields and inserts the header; it writes no footer.\<close>

definition add_hole :: "layout \<Rightarrow> addr \<Rightarrow> addr \<Rightarrow> heap \<Rightarrow> heap" where
  "add_hole L start endp h =
     (let myheader = start;
          h1 = h\<lparr>hdr_size := (hdr_size h)(myheader := endp - start)\<rparr>;
          h2 = h1\<lparr>hdr_magic := (hdr_magic h1)(myheader := HEAP_MAGIC L)\<rparr>;
          h3 = h2\<lparr>hdr_allocated := (hdr_allocated h2)(myheader := 0)\<rparr>
      in sorted_array_insert myheader h3)"

text \<open>
  \<^verbatim>\<open>heap_create\<close>: the heap structure and the free list's storage sit at \<open>start\<close>; the
  start address moves past them and up to the next page boundary. \<^verbatim>\<open>sorted_array_place\<close>
  (modelled from the spec: it is in the missing \<^verbatim>\<open>sorted_array.c\<close>) gives an empty list.
  The memory the heap is created in is the argument \<open>m\<close>.
\<close>

definition heap_create :: "layout \<Rightarrow> addr \<Rightarrow> addr \<Rightarrow> addr \<Rightarrow> memory \<Rightarrow> heap" where
  "heap_create L start0 endp maxp m =
     (let start1 = start0 + (sizeof_sorted_array L + sizeof_ptr L * HEAP_FREE_LIST_SIZE L);
          start = (if align start1 \<noteq> start1 then align start1 + PAGE_SIZE else start1);
          h = \<lparr>hdr_magic = hdr_magic m, hdr_allocated = hdr_allocated m, hdr_size = hdr_size m,
               ftr_magic = ftr_magic m, ftr_header = ftr_header m,
               free_list = [], start_address = start, end_address = endp, max_address = maxp\<rparr>
      in add_hole L start endp h)"

text \<open>
  \<^verbatim>\<open>heap_resize\<close> returns 0 on success and -1 when the new end would lie above
  \<^verbatim>\<open>max_address\<close>; the heap is returned with it.
\<close>

definition heap_resize :: "addr \<Rightarrow> heap \<Rightarrow> int \<times> heap" where
  "heap_resize new_size0 h =
     (let new_size = (if align new_size0 \<noteq> new_size0 then align new_size0 + PAGE_SIZE
                      else new_size0)
      in if new_size < end_address h - start_address h
         then (0, h\<lparr>end_address := start_address h + new_size\<rparr>)
         else if new_size > end_address h - start_address h
         then (if start_address h + new_size > max_address h then (- 1, h)
               else (0, h\<lparr>end_address := start_address h + new_size\<rparr>))
         else (0, h\<lparr>end_address := start_address h + new_size\<rparr>))"

subsection \<open>find_smallest_hole\<close>

text \<open>
  The test of one free-list entry. In the aligned case the condition of the source is
  \<^verbatim>\<open>(location+sizeof(struct header)) & (0xFFFFF000 != 0)\<close>: the comparison binds tighter
  than \<^verbatim>\<open>&\<close>, so the mask is the truth value 1. The comparison of \<^verbatim>\<open>hole_size\<close> with
  the size is between \<^verbatim>\<open>ssize_t\<close> values, that is signed.
\<close>

definition hole_fits :: "layout \<Rightarrow> addr \<Rightarrow> 8 word \<Rightarrow> heap \<Rightarrow> addr \<Rightarrow> bool" where
  "hole_fits L sz page_align h header =
     (if page_align > 0
      then (let location = header;
                offset = (if (location + sizeof_header L)
                               AND (if (0xFFFFF000 :: addr) \<noteq> 0 then 1 else 0) \<noteq> 0
                          then 0x1000 - (location + sizeof_header L) mod 0x1000
                          else 0);
                hole_size = hdr_size h header - offset
            in sz \<le>s hole_size)
      else hdr_size h header \<ge> sz)"

text \<open>The loop: \<open>iterator\<close> runs over the entries not yet looked at and stops at the first that fits.\<close>

fun find_loop :: "layout \<Rightarrow> addr \<Rightarrow> 8 word \<Rightarrow> heap \<Rightarrow> addr list \<Rightarrow> nat \<Rightarrow> nat" where
  "find_loop L sz page_align h [] iterator = iterator"
| "find_loop L sz page_align h (header # rest) iterator =
     (if hole_fits L sz page_align h header then iterator
      else find_loop L sz page_align h rest (Suc iterator))"

definition find_smallest_hole :: "layout \<Rightarrow> addr \<Rightarrow> 8 word \<Rightarrow> heap \<Rightarrow> int" where
  "find_smallest_hole L sz page_align h =
     (let iterator = find_loop L sz page_align h (free_list h) 0
      in if iterator = length (free_list h) then - 1 else int iterator)"

subsection \<open>kalloc_heap\<close>

text \<open>
  The search for the endmost header of the free list (endmost in location): \<open>idx\<close>
  starts as \<^verbatim>\<open>(size_t)-1\<close> and \<open>value\<close> as 0.
\<close>

fun endmost_loop :: "addr list \<Rightarrow> nat \<Rightarrow> addr \<times> addr \<Rightarrow> addr \<times> addr" where
  "endmost_loop [] iterator (idx, val) = (idx, val)"
| "endmost_loop (tmp # rest) iterator (idx, val) =
     (if tmp > val then endmost_loop rest (Suc iterator) (of_nat iterator, tmp)
      else endmost_loop rest (Suc iterator) (idx, val))"

text \<open>
  The body of \<^verbatim>\<open>if (iterator == -1)\<close> up to the recursive call: the heap is resized (the
  value \<^verbatim>\<open>heap_resize\<close> returns is dropped), and the endmost free header is enlarged by
  the growth, or a new header is written at the old end when the free list is empty. Both
  footers are placed with \<^verbatim>\<open>sizeof(footer)\<close>, the size of the pointer variable.
\<close>

definition kalloc_grow :: "layout \<Rightarrow> addr \<Rightarrow> heap \<Rightarrow> heap" where
  "kalloc_grow L sz h =
     (let new_size = sz + sizeof_header L + sizeof_footer L;
          old_length = end_address h - start_address h;
          old_end_address = end_address h;
          h1 = snd (heap_resize (old_length + new_size) h);
          new_length = end_address h1 - start_address h1;
          (idx, val) = endmost_loop (free_list h1) 0 (- 1, 0)
      in if idx = - 1
         then (let header = old_end_address;
                   h2 = h1\<lparr>hdr_magic := (hdr_magic h1)(header := HEAP_MAGIC L)\<rparr>;
                   h3 = h2\<lparr>hdr_size := (hdr_size h2)(header := new_length - old_length)\<rparr>;
                   h4 = h3\<lparr>hdr_allocated := (hdr_allocated h3)(header := 0)\<rparr>;
                   footer = old_end_address + hdr_size h4 header - sizeof_ptr L;
                   h5 = h4\<lparr>ftr_magic := (ftr_magic h4)(footer := HEAP_MAGIC L)\<rparr>;
                   h6 = h5\<lparr>ftr_header := (ftr_header h5)(footer := header)\<rparr>
               in sorted_array_insert header h6)
         else (let header = sorted_array_lookup (unat idx) h1;
                   h2 = h1\<lparr>hdr_size := (hdr_size h1)
                           (header := hdr_size h1 header + (new_length - old_length))\<rparr>;
                   footer = header + hdr_size h2 header - sizeof_ptr L;
                   h3 = h2\<lparr>ftr_header := (ftr_header h2)(footer := header)\<rparr>
               in h3\<lparr>ftr_magic := (ftr_magic h3)(footer := HEAP_MAGIC L)\<rparr>))"

text \<open>
  The rest of \<^verbatim>\<open>kalloc_heap\<close>, from the lookup of the hole found at \<open>iterator\<close> to the
  return of the pointer behind the block's header.
\<close>

definition kalloc_carve :: "layout \<Rightarrow> addr \<Rightarrow> 8 word \<Rightarrow> nat \<Rightarrow> heap \<Rightarrow> addr \<times> heap" where
  "kalloc_carve L sz0 page_align iterator h =
     (let new_size0 = sz0 + sizeof_header L + sizeof_footer L;
          orig_hole_header = sorted_array_lookup iterator h;
          orig_hole_pos0 = orig_hole_header;
          orig_hole_size0 = hdr_size h orig_hole_header;
          (sz, new_size) =
            (if orig_hole_size0 - new_size0 < sizeof_header L + sizeof_footer L
             then (sz0 + (orig_hole_size0 - new_size0), orig_hole_size0)
             else (sz0, new_size0));
          (orig_hole_pos, orig_hole_size, h1) =
            (if page_align \<noteq> 0 \<and> orig_hole_pos0 AND 0xFFFFF000 \<noteq> 0
             then (let new_location = orig_hole_pos0 + 0x1000 - (orig_hole_pos0 AND 0xFFF)
                                        - sizeof_header L;
                       hole_header = orig_hole_pos0;
                       ha = h\<lparr>hdr_size := (hdr_size h)
                               (hole_header := 0x1000 - (orig_hole_pos0 AND 0xFFF)
                                                 - sizeof_header L)\<rparr>;
                       hb = ha\<lparr>hdr_magic := (hdr_magic ha)(hole_header := HEAP_MAGIC L)\<rparr>;
                       hc = hb\<lparr>hdr_allocated := (hdr_allocated hb)(hole_header := 0)\<rparr>;
                       hole_footer = new_location - sizeof_footer L;
                       hf = hc\<lparr>ftr_magic := (ftr_magic hc)(hole_footer := HEAP_MAGIC L)\<rparr>;
                       he = hf\<lparr>ftr_header := (ftr_header hf)(hole_footer := hole_header)\<rparr>
                   in (new_location, orig_hole_size0 - hdr_size he hole_header, he))
             else (orig_hole_pos0, orig_hole_size0, sorted_array_remove iterator h));
          block_header = orig_hole_pos;
          h2 = h1\<lparr>hdr_magic := (hdr_magic h1)(block_header := HEAP_MAGIC L)\<rparr>;
          h3 = h2\<lparr>hdr_allocated := (hdr_allocated h2)(block_header := 1)\<rparr>;
          h4 = h3\<lparr>hdr_size := (hdr_size h3)(block_header := new_size)\<rparr>;
          block_footer = orig_hole_pos + sizeof_header L + sz;
          h5 = h4\<lparr>ftr_magic := (ftr_magic h4)(block_footer := HEAP_MAGIC L)\<rparr>;
          h6 = h5\<lparr>ftr_header := (ftr_header h5)(block_footer := block_header)\<rparr>;
          h7 = (if orig_hole_size - new_size > 0
                then (let hole_header = orig_hole_pos + sizeof_header L + sz + sizeof_footer L;
                          hw = h6\<lparr>hdr_magic := (hdr_magic h6)(hole_header := HEAP_MAGIC L)\<rparr>;
                          hx = hw\<lparr>hdr_allocated := (hdr_allocated hw)(hole_header := 0)\<rparr>;
                          hy = hx\<lparr>hdr_size := (hdr_size hx)
                                  (hole_header := orig_hole_size - new_size)\<rparr>;
                          hole_footer = hole_header + orig_hole_size - new_size
                                          - sizeof_footer L;
                          hz = (if hole_footer < end_address hy
                                then (let hu = hy\<lparr>ftr_magic := (ftr_magic hy)
                                                  (hole_footer := HEAP_MAGIC L)\<rparr>
                                      in hu\<lparr>ftr_header := (ftr_header hu)
                                              (hole_footer := hole_header)\<rparr>)
                                else hy)
                      in sorted_array_insert hole_header hz)
                else h6)
      in (block_header + sizeof_header L, h7))"

text \<open>
  \<^verbatim>\<open>kalloc_heap\<close> calls itself after growing the heap. The recursion need not end, so
  the function is partial: \<open>None\<close> is a call that never returns.
\<close>

partial_function (option) kalloc_heap ::
  "layout \<Rightarrow> addr \<Rightarrow> 8 word \<Rightarrow> heap \<Rightarrow> (addr \<times> heap) option" where
  "kalloc_heap L sz page_align h =
     (if find_smallest_hole L (sz + sizeof_header L + sizeof_footer L) page_align h = - 1
      then kalloc_heap L sz page_align (kalloc_grow L sz h)
      else Some (kalloc_carve L sz page_align
                   (nat (find_smallest_hole L (sz + sizeof_header L + sizeof_footer L)
                           page_align h)) h))"

subsection \<open>kfree_heap\<close>

text \<open>
  The loop \<^verbatim>\<open>while (iterator < size && lookup(iterator) != test_header) iterator++\<close>:
  the index of the first entry equal to the header, the length of the list when there is
  none.
\<close>

fun index_loop :: "addr \<Rightarrow> addr list \<Rightarrow> nat \<Rightarrow> nat" where
  "index_loop test_header [] iterator = iterator"
| "index_loop test_header (x # rest) iterator =
     (if x \<noteq> test_header then index_loop test_header rest (Suc iterator) else iterator)"

text \<open>
  \<^verbatim>\<open>kfree_heap\<close>. The two sanity checks of the magic values are comments in the source
  and so are not part of the function. The value that \<^verbatim>\<open>heap_resize\<close> returns, 0 or -1,
  is stored in the \<^verbatim>\<open>size_t\<close> variable \<^verbatim>\<open>new_length\<close>.
\<close>

definition kfree_heap :: "layout \<Rightarrow> addr \<Rightarrow> heap \<Rightarrow> heap" where
  "kfree_heap L p h =
     (if p = 0 then h
      else
        (let header0 = p - sizeof_header L;
             footer0 = header0 + hdr_size h header0 - sizeof_footer L;
             h1 = h\<lparr>hdr_allocated := (hdr_allocated h)(header0 := 0)\<rparr>;
             test_footer = header0 - sizeof_footer L;
             (header, do_add, h2) =
               (if ftr_magic h1 test_footer = HEAP_MAGIC L
                   \<and> hdr_allocated h1 (ftr_header h1 test_footer) = 0
                then (let cache_size = hdr_size h1 header0;
                          header1 = ftr_header h1 test_footer;
                          ha = h1\<lparr>ftr_header := (ftr_header h1)(footer0 := header1)\<rparr>;
                          hb = ha\<lparr>hdr_size := (hdr_size ha)
                                  (header1 := hdr_size ha header1 + cache_size)\<rparr>
                      in (header1, False, hb))
                else (header0, True, h1));
             test_header = footer0 + sizeof_footer L;
             (footer, h3) =
               (if hdr_magic h2 test_header = HEAP_MAGIC L \<and> hdr_allocated h2 test_header = 0
                then (let ha = h2\<lparr>hdr_size := (hdr_size h2)
                                  (header := hdr_size h2 header + hdr_size h2 test_header)\<rparr>;
                          test_footer1 = test_header + hdr_size ha test_header - sizeof_footer L;
                          iterator = index_loop test_header (free_list ha) 0
                      in (test_footer1, sorted_array_remove iterator ha))
                else (footer0, h2));
             h4 =
               (if footer + sizeof_footer L = end_address h3
                then (let old_length = end_address h3 - start_address h3;
                          (r, ha) = heap_resize (header - start_address h3) h3;
                          new_length = (of_int r :: addr)
                      in if hdr_size ha header - (old_length - new_length) > 0
                         then (let hb = ha\<lparr>hdr_size := (hdr_size ha)
                                          (header := hdr_size ha header
                                                       - (old_length - new_length))\<rparr>;
                                   footer1 = header + hdr_size hb header - sizeof_footer L;
                                   hc = hb\<lparr>ftr_magic := (ftr_magic hb)(footer1 := HEAP_MAGIC L)\<rparr>
                               in hc\<lparr>ftr_header := (ftr_header hc)(footer1 := header)\<rparr>)
                         else (let iterator = index_loop test_header (free_list ha) 0
                               in if iterator < length (free_list ha)
                                  then sorted_array_remove iterator ha else ha))
                else h3)
         in if do_add then sorted_array_insert header h4 else h4))"

subsection \<open>A concrete layout and an empty memory\<close>

text \<open>
  For running the functions: the layout of a 32-bit build (a header of a magic word, a flag
  and a size; a footer of a magic word and a pointer; a sorted array of four words and
  256 slots), and a memory of zeros.
\<close>

definition ilp32 :: layout where
  "ilp32 = \<lparr>HEAP_MAGIC = 0x123890AB, HEAP_FREE_LIST_SIZE = 0x100, sizeof_header = 12,
            sizeof_footer = 8, sizeof_ptr = 4, sizeof_sorted_array = 16, sizeof_heap = 28\<rparr>"

definition zero_memory :: memory where
  "zero_memory = \<lparr>hdr_magic = (\<lambda>_. 0), hdr_allocated = (\<lambda>_. 0), hdr_size = (\<lambda>_. 0),
                   ftr_magic = (\<lambda>_. 0), ftr_header = (\<lambda>_. 0)\<rparr>"

subsection \<open>Runs of the allocator\<close>

text \<open>
  A heap created over \<^verbatim>\<open>[0x100000, 0x200000)\<close> that may not grow (its maximum is its end),
  and the heaps after one to four allocations of 64 bytes, each taken from the only hole
  of the heap before. The blocks are called a, b, c and d; their headers are at
  \<^verbatim>\<open>0x101000\<close>, \<^verbatim>\<open>0x101054\<close>, \<^verbatim>\<open>0x1010A8\<close> and \<^verbatim>\<open>0x1010FC\<close>.
\<close>

definition created :: heap where
  "created = heap_create ilp32 0x100000 0x200000 0x200000 zero_memory"

definition heap_a :: heap where
  "heap_a = snd (kalloc_carve ilp32 64 0 0 created)"

definition heap_ab :: heap where
  "heap_ab = snd (kalloc_carve ilp32 64 0 0 heap_a)"

definition heap_abc :: heap where
  "heap_abc = snd (kalloc_carve ilp32 64 0 0 heap_ab)"

definition heap_abcd :: heap where
  "heap_abcd = snd (kalloc_carve ilp32 64 0 0 heap_abc)"

text \<open>The heap after a, b, c and d are allocated and then b, a and c are freed, in this order.\<close>

definition heap_bac_freed :: heap where
  "heap_bac_freed =
     kfree_heap ilp32 0x1010B4 (kfree_heap ilp32 0x10100C (kfree_heap ilp32 0x101060 heap_abcd))"

text \<open>The heap with a, c and d allocated and b freed: b is a hole between two allocated blocks.\<close>

definition heap_acd :: heap where
  "heap_acd = kfree_heap ilp32 0x101060 heap_abcd"

text \<open>The heap with a and b allocated, and the magic values of a's header and footer overwritten.\<close>

definition heap_corrupt :: heap where
  "heap_corrupt = heap_ab\<lparr>hdr_magic := (hdr_magic heap_ab)(0x101000 := 0),
                           ftr_magic := (ftr_magic heap_ab)(0x10104C := 0)\<rparr>"

text \<open>The heap after a page-aligned allocation of all the bytes the first hole can hold.\<close>

definition heap_aligned :: heap where
  "heap_aligned = snd (kalloc_carve ilp32 0xFEFEC 1 0 created)"

subsection \<open>The notions of the specification\<close>

text \<open>
  The scan of the region that invariant I3 speaks of: the headers met when walking from
  an address by the sizes the headers hold, while inside \<^verbatim>\<open>[start_address, end_address)\<close>;
  \<open>n\<close> bounds the number of blocks looked at. \<open>adjacent_free\<close> holds when two
  consecutive blocks of such a list are both free.
\<close>

fun scan_blocks :: "nat \<Rightarrow> heap \<Rightarrow> addr \<Rightarrow> addr list" where
  "scan_blocks 0 h a = []"
| "scan_blocks (Suc n) h a =
     (if start_address h \<le> a \<and> a < end_address h
      then a # scan_blocks n h (a + hdr_size h a) else [])"

fun adjacent_free :: "heap \<Rightarrow> addr list \<Rightarrow> bool" where
  "adjacent_free h (a # b # bs) =
     (hdr_allocated h a = 0 \<and> hdr_allocated h b = 0 \<or> adjacent_free h (b # bs))"
| "adjacent_free h bs = False"

text \<open>The two measures of the round-trip property: the number of holes and their total size.\<close>

definition hole_count :: "heap \<Rightarrow> nat" where
  "hole_count h = length (free_list h)"

definition total_free_bytes :: "heap \<Rightarrow> nat" where
  "total_free_bytes h = sum_list (map (\<lambda>a. unat (hdr_size h a)) (free_list h))"

text \<open>
  The hole search as the specification words it, for an aligned request: the padding
  brings the payload start (the address behind the header) up to the next page boundary
  and is zero when the payload start is a multiple of the page size; the effective size
  is the header's size minus the padding; the result is the index of the first entry whose
  effective size is at least the size asked for, and -1 when there is none.
\<close>

definition padding_spec :: "layout \<Rightarrow> addr \<Rightarrow> addr" where
  "padding_spec L header =
     (let payload = header + sizeof_header L
      in if payload mod PAGE_SIZE = 0 then 0 else PAGE_SIZE - payload mod PAGE_SIZE)"

definition effective_size_spec :: "layout \<Rightarrow> heap \<Rightarrow> addr \<Rightarrow> int" where
  "effective_size_spec L h header = uint (hdr_size h header) - uint (padding_spec L header)"

fun find_hole_spec_loop :: "layout \<Rightarrow> addr \<Rightarrow> heap \<Rightarrow> addr list \<Rightarrow> nat \<Rightarrow> int" where
  "find_hole_spec_loop L min_size h [] i = - 1"
| "find_hole_spec_loop L min_size h (header # rest) i =
     (if effective_size_spec L h header \<ge> uint min_size then int i
      else find_hole_spec_loop L min_size h rest (Suc i))"

definition find_hole_spec :: "layout \<Rightarrow> addr \<Rightarrow> heap \<Rightarrow> int" where
  "find_hole_spec L min_size h = find_hole_spec_loop L min_size h (free_list h) 0"

section \<open>Evaluating the functions\<close>

lemmas kheap_eval =
  find_smallest_hole_def hole_fits_def kalloc_carve_def kalloc_grow_def kfree_heap_def
  heap_resize_def sorted_array_remove_def sorted_array_lookup_def sorted_array_insert_def
  header_less_than_def heap_create_def add_hole_def align_def PAGE_MASK_def PAGE_SIZE_def
  ilp32_def zero_memory_def Let_def word_gt_0

lemma created_eq:
  "created =
     \<lparr>hdr_magic = (\<lambda>_. 0)(0x101000 := 0x123890AB),
      hdr_allocated = (\<lambda>_. 0)(0x101000 := 0),
      hdr_size = (\<lambda>_. 0)(0x101000 := 0xFF000),
      ftr_magic = (\<lambda>_. 0), ftr_header = (\<lambda>_. 0),
      free_list = [0x101000], start_address = 0x101000, end_address = 0x200000,
      max_address = 0x200000\<rparr>"
  by (simp add: created_def kheap_eval)

lemma heap_a_eq:
  "heap_a =
     \<lparr>hdr_magic = (\<lambda>_. 0)(0x101000 := 0x123890AB, 0x101054 := 0x123890AB),
      hdr_allocated = (\<lambda>_. 0)(0x101000 := 1, 0x101054 := 0),
      hdr_size = (\<lambda>_. 0)(0x101000 := 84, 0x101054 := 0xFEFAC),
      ftr_magic = (\<lambda>_. 0)(0x10104C := 0x123890AB, 0x1FFFF8 := 0x123890AB),
      ftr_header = (\<lambda>_. 0)(0x10104C := 0x101000, 0x1FFFF8 := 0x101054),
      free_list = [0x101054], start_address = 0x101000, end_address = 0x200000,
      max_address = 0x200000\<rparr>"
  by (simp add: heap_a_def created_eq kheap_eval)

lemma heap_ab_eq:
  "heap_ab =
     \<lparr>hdr_magic = (\<lambda>_. 0)(0x101000 := 0x123890AB, 0x101054 := 0x123890AB,
                              0x1010A8 := 0x123890AB),
      hdr_allocated = (\<lambda>_. 0)(0x101000 := 1, 0x101054 := 1, 0x1010A8 := 0),
      hdr_size = (\<lambda>_. 0)(0x101000 := 84, 0x101054 := 84, 0x1010A8 := 0xFEF58),
      ftr_magic = (\<lambda>_. 0)(0x10104C := 0x123890AB, 0x1010A0 := 0x123890AB,
                              0x1FFFF8 := 0x123890AB),
      ftr_header = (\<lambda>_. 0)(0x10104C := 0x101000, 0x1010A0 := 0x101054,
                               0x1FFFF8 := 0x1010A8),
      free_list = [0x1010A8], start_address = 0x101000, end_address = 0x200000,
      max_address = 0x200000\<rparr>"
  by (simp add: heap_ab_def heap_a_eq kheap_eval)

lemma heap_abc_eq:
  "heap_abc =
     \<lparr>hdr_magic = (\<lambda>_. 0)(0x101000 := 0x123890AB, 0x101054 := 0x123890AB,
                              0x1010A8 := 0x123890AB, 0x1010FC := 0x123890AB),
      hdr_allocated = (\<lambda>_. 0)(0x101000 := 1, 0x101054 := 1, 0x1010A8 := 1, 0x1010FC := 0),
      hdr_size = (\<lambda>_. 0)(0x101000 := 84, 0x101054 := 84, 0x1010A8 := 84,
                             0x1010FC := 0xFEF04),
      ftr_magic = (\<lambda>_. 0)(0x10104C := 0x123890AB, 0x1010A0 := 0x123890AB,
                              0x1010F4 := 0x123890AB, 0x1FFFF8 := 0x123890AB),
      ftr_header = (\<lambda>_. 0)(0x10104C := 0x101000, 0x1010A0 := 0x101054,
                               0x1010F4 := 0x1010A8, 0x1FFFF8 := 0x1010FC),
      free_list = [0x1010FC], start_address = 0x101000, end_address = 0x200000,
      max_address = 0x200000\<rparr>"
  by (simp add: heap_abc_def heap_ab_eq kheap_eval)

lemma heap_abcd_eq:
  "heap_abcd =
     \<lparr>hdr_magic = (\<lambda>_. 0)(0x101000 := 0x123890AB, 0x101054 := 0x123890AB,
                              0x1010A8 := 0x123890AB, 0x1010FC := 0x123890AB,
                              0x101150 := 0x123890AB),
      hdr_allocated = (\<lambda>_. 0)(0x101000 := 1, 0x101054 := 1, 0x1010A8 := 1, 0x1010FC := 1,
                                  0x101150 := 0),
      hdr_size = (\<lambda>_. 0)(0x101000 := 84, 0x101054 := 84, 0x1010A8 := 84, 0x1010FC := 84,
                             0x101150 := 0xFEEB0),
      ftr_magic = (\<lambda>_. 0)(0x10104C := 0x123890AB, 0x1010A0 := 0x123890AB,
                              0x1010F4 := 0x123890AB, 0x101148 := 0x123890AB,
                              0x1FFFF8 := 0x123890AB),
      ftr_header = (\<lambda>_. 0)(0x10104C := 0x101000, 0x1010A0 := 0x101054,
                               0x1010F4 := 0x1010A8, 0x101148 := 0x1010FC,
                               0x1FFFF8 := 0x101150),
      free_list = [0x101150], start_address = 0x101000, end_address = 0x200000,
      max_address = 0x200000\<rparr>"
  by (simp add: heap_abcd_def heap_abc_eq kheap_eval)

lemma kalloc_created: "kalloc_heap ilp32 64 0 created = Some (0x10100C, heap_a)"
  by (subst kalloc_heap.simps) (simp add: heap_a_def created_eq kheap_eval)

lemma kalloc_heap_a: "kalloc_heap ilp32 64 0 heap_a = Some (0x101060, heap_ab)"
  by (subst kalloc_heap.simps) (simp add: heap_ab_def heap_a_eq kheap_eval)

lemma kalloc_heap_ab: "kalloc_heap ilp32 64 0 heap_ab = Some (0x1010B4, heap_abc)"
  by (subst kalloc_heap.simps) (simp add: heap_abc_def heap_ab_eq kheap_eval)

lemma kalloc_heap_abc: "kalloc_heap ilp32 64 0 heap_abc = Some (0x101108, heap_abcd)"
  by (subst kalloc_heap.simps) (simp add: heap_abcd_def heap_abc_eq kheap_eval)

text \<open>
  The heap after b, a and c are freed: a has absorbed b, and c was merged into the header
  of b, which is no longer a block.
\<close>

lemma heap_bac_freed_eq:
  "heap_bac_freed =
     \<lparr>hdr_magic = (\<lambda>_. 0)(0x101000 := 0x123890AB, 0x101054 := 0x123890AB,
                              0x1010A8 := 0x123890AB, 0x1010FC := 0x123890AB,
                              0x101150 := 0x123890AB),
      hdr_allocated = (\<lambda>_. 0)(0x1010FC := 1, 0x101150 := 0, 0x101054 := 0, 0x101000 := 0,
                                  0x1010A8 := 0),
      hdr_size = (\<lambda>_. 0)(0x1010A8 := 84, 0x1010FC := 84, 0x101150 := 0xFEEB0,
                             0x101000 := 168, 0x101054 := 168),
      ftr_magic = (\<lambda>_. 0)(0x10104C := 0x123890AB, 0x1010A0 := 0x123890AB,
                              0x1010F4 := 0x123890AB, 0x101148 := 0x123890AB,
                              0x1FFFF8 := 0x123890AB),
      ftr_header = (\<lambda>_. 0)(0x10104C := 0x101000, 0x1010A0 := 0x101054,
                               0x101148 := 0x1010FC, 0x1FFFF8 := 0x101150,
                               0x1010F4 := 0x101054),
      free_list = [0x101000, 0x101150], start_address = 0x101000, end_address = 0x200000,
      max_address = 0x200000\<rparr>"
  by (simp add: heap_bac_freed_def heap_abcd_eq kheap_eval)

text \<open>The heap after b alone is freed: b enters the free list in front of the last hole.\<close>

lemma heap_acd_eq:
  "heap_acd =
     \<lparr>hdr_magic = (\<lambda>_. 0)(0x101000 := 0x123890AB, 0x101054 := 0x123890AB,
                              0x1010A8 := 0x123890AB, 0x1010FC := 0x123890AB,
                              0x101150 := 0x123890AB),
      hdr_allocated = (\<lambda>_. 0)(0x101000 := 1, 0x1010A8 := 1, 0x1010FC := 1, 0x101150 := 0,
                                  0x101054 := 0),
      hdr_size = (\<lambda>_. 0)(0x101000 := 84, 0x101054 := 84, 0x1010A8 := 84, 0x1010FC := 84,
                             0x101150 := 0xFEEB0),
      ftr_magic = (\<lambda>_. 0)(0x10104C := 0x123890AB, 0x1010A0 := 0x123890AB,
                              0x1010F4 := 0x123890AB, 0x101148 := 0x123890AB,
                              0x1FFFF8 := 0x123890AB),
      ftr_header = (\<lambda>_. 0)(0x10104C := 0x101000, 0x1010A0 := 0x101054,
                               0x1010F4 := 0x1010A8, 0x101148 := 0x1010FC,
                               0x1FFFF8 := 0x101150),
      free_list = [0x101054, 0x101150], start_address = 0x101000, end_address = 0x200000,
      max_address = 0x200000\<rparr>"
  by (simp add: heap_acd_def heap_abcd_eq kheap_eval)

section \<open>When the heap cannot grow\<close>

text \<open>
  A heap on which the search fails and which the growing step leaves as it is: the
  recursive call has the arguments of the call it is made from, and no call returns.
\<close>

lemma kalloc_heap_stuck:
  assumes "find_smallest_hole L (sz + sizeof_header L + sizeof_footer L) pa h = - 1"
    and "kalloc_grow L sz h = h"
  shows "kalloc_heap L sz pa h = None"
proof (rule ccontr)
  assume "kalloc_heap L sz pa h \<noteq> None"
  then obtain r where r: "kalloc_heap L sz pa h = Some r"
    by auto
  have "\<not> (find_smallest_hole L (sz + sizeof_header L + sizeof_footer L) pa h = - 1
           \<and> kalloc_grow L sz h = h)"
  proof (rule kalloc_heap.raw_induct [where P = "\<lambda>L sz pa h r.
           \<not> (find_smallest_hole L (sz + sizeof_header L + sizeof_footer L) pa h = - 1
              \<and> kalloc_grow L sz h = h)", OF _ r])
    fix f :: "layout \<Rightarrow> addr \<Rightarrow> 8 word \<Rightarrow> heap \<Rightarrow> (addr \<times> heap) option"
      and L sz pa h r
    assume IH: "\<And>L sz pa h r. f L sz pa h = Some r \<Longrightarrow>
           \<not> (find_smallest_hole L (sz + sizeof_header L + sizeof_footer L) pa h = - 1
              \<and> kalloc_grow L sz h = h)"
      and step: "(if find_smallest_hole L (sz + sizeof_header L + sizeof_footer L) pa h = - 1
           then f L sz pa (kalloc_grow L sz h)
           else Some (kalloc_carve L sz pa
                  (nat (find_smallest_hole L (sz + sizeof_header L + sizeof_footer L) pa h))
                  h)) = Some r"
    show "\<not> (find_smallest_hole L (sz + sizeof_header L + sizeof_footer L) pa h = - 1
              \<and> kalloc_grow L sz h = h)"
    proof
      assume stuck: "find_smallest_hole L (sz + sizeof_header L + sizeof_footer L) pa h = - 1
          \<and> kalloc_grow L sz h = h"
      with step have "f L sz pa h = Some r"
        by simp
      with IH stuck show False
        by blast
    qed
  qed
  with assms show False
    by simp
qed

lemma heap_resize_failed:
  "fst (heap_resize n h) = - 1 \<Longrightarrow> snd (heap_resize n h) = h"
  by (simp add: heap_resize_def Let_def split: if_splits)

lemma heap_resize_fst_cong:
  "start_address h' = start_address h \<Longrightarrow> end_address h' = end_address h \<Longrightarrow>
   max_address h' = max_address h \<Longrightarrow> fst (heap_resize n h') = fst (heap_resize n h)"
  by (simp add: heap_resize_def Let_def)

lemma find_loop_cong:
  "hdr_size h' = hdr_size h \<Longrightarrow> find_loop L sz pa h' xs i = find_loop L sz pa h xs i"
  by (induction xs arbitrary: i) (simp_all add: hole_fits_def)

lemma find_smallest_hole_cong:
  "hdr_size h' = hdr_size h \<Longrightarrow> free_list h' = free_list h \<Longrightarrow>
   find_smallest_hole L sz pa h' = find_smallest_hole L sz pa h"
  using find_loop_cong [of h' h L sz pa "free_list h" 0] by (simp add: find_smallest_hole_def)

text \<open>
  When \<^verbatim>\<open>heap_resize\<close> fails and the free list has an entry, the growing step adds
  nothing to the endmost header and only rewrites a footer.
\<close>

lemma kalloc_grow_failed:
  assumes rf: "fst (heap_resize (end_address h - start_address h
                 + (sz + sizeof_header L + sizeof_footer L)) h) = - 1"
    and ne: "fst (endmost_loop (free_list h) 0 (- 1, 0)) \<noteq> - 1"
  shows "kalloc_grow L sz h =
     (let header = free_list h ! unat (fst (endmost_loop (free_list h) 0 (- 1, 0)));
          footer = header + hdr_size h header - sizeof_ptr L
      in h\<lparr>ftr_header := (ftr_header h)(footer := header),
           ftr_magic := (ftr_magic h)(footer := HEAP_MAGIC L)\<rparr>)"
proof -
  obtain idx v where e: "endmost_loop (free_list h) 0 (- 1, 0) = (idx, v)"
    by (cases "endmost_loop (free_list h) 0 (- 1, 0)")
  with ne have "idx \<noteq> - 1"
    by simp
  with e heap_resize_failed [OF rf] show ?thesis
    by (simp add: kalloc_grow_def Let_def sorted_array_lookup_def)
qed

lemma kalloc_heap_failed_growth:
  assumes nf: "find_smallest_hole L (sz + sizeof_header L + sizeof_footer L) pa h = - 1"
    and rf: "fst (heap_resize (end_address h - start_address h
                 + (sz + sizeof_header L + sizeof_footer L)) h) = - 1"
    and ne: "fst (endmost_loop (free_list h) 0 (- 1, 0)) \<noteq> - 1"
  shows "kalloc_heap L sz pa h = None"
proof -
  define h' where "h' = kalloc_grow L sz h"
  have h': "h' = (let header = free_list h ! unat (fst (endmost_loop (free_list h) 0 (- 1, 0)));
          footer = header + hdr_size h header - sizeof_ptr L
      in h\<lparr>ftr_header := (ftr_header h)(footer := header),
           ftr_magic := (ftr_magic h)(footer := HEAP_MAGIC L)\<rparr>)"
    unfolding h'_def by (rule kalloc_grow_failed [OF rf ne])
  have same: "hdr_size h' = hdr_size h" "free_list h' = free_list h"
    "start_address h' = start_address h" "end_address h' = end_address h"
    "max_address h' = max_address h"
    by (simp_all add: h' Let_def)
  have nf': "find_smallest_hole L (sz + sizeof_header L + sizeof_footer L) pa h' = - 1"
    using nf find_smallest_hole_cong [of h' h L _ pa] by (simp add: same)
  have rf': "fst (heap_resize (end_address h' - start_address h'
                 + (sz + sizeof_header L + sizeof_footer L)) h') = - 1"
    using rf heap_resize_fst_cong [of h' h] by (simp add: same)
  have ne': "fst (endmost_loop (free_list h') 0 (- 1, 0)) \<noteq> - 1"
    using ne by (simp add: same)
  have "kalloc_grow L sz h' = h'"
    by (subst kalloc_grow_failed [OF rf' ne']) (simp add: same Let_def, simp add: h' Let_def)
  with nf' have "kalloc_heap L sz pa h' = None"
    by (rule kalloc_heap_stuck)
  moreover have "kalloc_heap L sz pa h = kalloc_heap L sz pa h'"
    by (subst kalloc_heap.simps) (simp add: nf h'_def)
  ultimately show ?thesis
    by simp
qed

section \<open>The start address of a new heap\<close>











section \<open>Allocation followed by deallocation\<close>

text \<open>What the search returns when it finds a hole.\<close>

lemma find_loop_bounds:
  "k \<le> find_loop L n pa h xs k \<and> find_loop L n pa h xs k \<le> k + length xs"
proof (induction xs arbitrary: k)
  case Nil
  then show ?case by simp
next
  case (Cons x xs)
  from Cons.IH [of "Suc k"] show ?case
    by simp
qed

lemma find_loop_fits:
  "find_loop L n pa h xs k \<noteq> k + length xs \<Longrightarrow>
   hole_fits L n pa h (xs ! (find_loop L n pa h xs k - k))"
proof (induction xs arbitrary: k)
  case Nil
  then show ?case by simp
next
  case (Cons x xs)
  show ?case
  proof (cases "hole_fits L n pa h x")
    case True
    then show ?thesis by simp
  next
    case False
    with Cons.prems have "find_loop L n pa h xs (Suc k) \<noteq> Suc k + length xs"
      by simp
    from Cons.IH [OF this] find_loop_bounds [of "Suc k" L n pa h xs] False show ?thesis
      by (simp add: Suc_diff_le)
  qed
qed

lemma find_smallest_hole_found:
  assumes "find_smallest_hole L n pa h = int i"
  shows "i < length (free_list h) \<and> hole_fits L n pa h (free_list h ! i)"
proof -
  from assms have ne: "find_loop L n pa h (free_list h) 0 \<noteq> length (free_list h)"
    and i: "find_loop L n pa h (free_list h) 0 = i"
    by (auto simp: find_smallest_hole_def Let_def split: if_splits)
  from find_loop_bounds [of 0 L n pa h "free_list h"] ne i have "i < length (free_list h)"
    by simp
  moreover from find_loop_fits [of L n pa h "free_list h" 0] ne i
  have "hole_fits L n pa h (free_list h ! i)"
    by simp
  ultimately show ?thesis by simp
qed

text \<open>The free list under insertion and removal.\<close>

lemma insert_ordered_length: "length (insert_ordered lt x xs) = Suc (length xs)"
  by (induction xs) simp_all

lemma insert_ordered_sum:
  "sum_list (map f (insert_ordered lt x xs)) = (f x :: nat) + sum_list (map f xs)"
  by (induction xs) simp_all

lemma remove_at_sum:
  "i < length xs \<Longrightarrow>
   sum_list (map f (take i xs @ drop (Suc i) xs)) + (f (xs ! i) :: nat) = sum_list (map f xs)"
proof -
  assume "i < length xs"
  then have "xs = take i xs @ xs ! i # drop (Suc i) xs"
    by (rule id_take_nth_drop)
  then have "sum_list (map f xs) = sum_list (map f (take i xs @ xs ! i # drop (Suc i) xs))"
    by simp
  then show ?thesis
    by simp
qed

lemma remove_at_set: "set (take i xs @ drop (Suc i) xs) \<subseteq> set xs"
  by (auto dest: in_set_takeD in_set_dropD)

lemma index_loop_shift: "index_loop x zs k = k + index_loop x zs 0"
proof (induction zs arbitrary: k)
  case Nil
  then show ?case by simp
next
  case (Cons z zs)
  from Cons.IH [of "Suc k"] Cons.IH [of "Suc 0"] show ?case
    by simp
qed

lemma insert_then_remove:
  "x \<notin> set ys \<Longrightarrow>
   take (index_loop x (insert_ordered lt x ys) 0) (insert_ordered lt x ys)
     @ drop (Suc (index_loop x (insert_ordered lt x ys) 0)) (insert_ordered lt x ys) = ys"
proof (induction ys)
  case Nil
  then show ?case by simp
next
  case (Cons y ys)
  then show ?case
    using index_loop_shift [of x "insert_ordered lt x ys" "Suc 0"] by auto
qed

text \<open>
  \<^verbatim>\<open>kfree_heap\<close> when the block before is not free and the heap is not contracted:
  without and with the merge of the free block that follows.
\<close>

lemma kfree_heap_plain:
  assumes p: "p \<noteq> 0"
    and hdr: "p - sizeof_header L = header"
    and nxt: "header + hdr_size h header = nxt"
    and before: "ftr_magic h (header - sizeof_footer L) = HEAP_MAGIC L \<Longrightarrow>
            ftr_header h (header - sizeof_footer L) \<noteq> header
            \<and> hdr_allocated h (ftr_header h (header - sizeof_footer L)) \<noteq> 0"
    and after: "hdr_magic h nxt = HEAP_MAGIC L \<Longrightarrow> nxt \<noteq> header \<and> hdr_allocated h nxt \<noteq> 0"
    and inner: "nxt \<noteq> end_address h"
  shows "kfree_heap L p h =
     sorted_array_insert header (h\<lparr>hdr_allocated := (hdr_allocated h)(header := 0)\<rparr>)"
proof -
  have b: "\<not> (ftr_magic h (header - sizeof_footer L) = HEAP_MAGIC L
      \<and> ((hdr_allocated h)(header := 0)) (ftr_header h (header - sizeof_footer L)) = 0)"
    using before by auto
  have a: "\<not> (hdr_magic h nxt = HEAP_MAGIC L \<and> ((hdr_allocated h)(header := 0)) nxt = 0)"
    using after by auto
  show ?thesis
    using p hdr nxt inner a b
    by (simp add: kfree_heap_def Let_def cong: conj_cong split del: if_split)
qed

lemma kfree_heap_forward:
  assumes p: "p \<noteq> 0"
    and hdr: "p - sizeof_header L = header"
    and nxt: "header + hdr_size h header = nxt"
    and before: "ftr_magic h (header - sizeof_footer L) = HEAP_MAGIC L \<Longrightarrow>
            ftr_header h (header - sizeof_footer L) \<noteq> header
            \<and> hdr_allocated h (ftr_header h (header - sizeof_footer L)) \<noteq> 0"
    and after: "hdr_magic h nxt = HEAP_MAGIC L" "nxt \<noteq> header" "hdr_allocated h nxt = 0"
    and inner: "nxt + hdr_size h nxt \<noteq> end_address h"
  shows "kfree_heap L p h =
     sorted_array_insert header
       (sorted_array_remove (index_loop nxt (free_list h) 0)
          (h\<lparr>hdr_allocated := (hdr_allocated h)(header := 0),
             hdr_size := (hdr_size h)(header := hdr_size h header + hdr_size h nxt)\<rparr>))"
proof -
  have b: "\<not> (ftr_magic h (header - sizeof_footer L) = HEAP_MAGIC L
      \<and> ((hdr_allocated h)(header := 0)) (ftr_header h (header - sizeof_footer L)) = 0)"
    using before by auto
  have a: "((hdr_allocated h)(header := 0)) nxt = 0"
    using after by simp
  show ?thesis
    using p hdr nxt inner a b after
    by (simp add: kfree_heap_def Let_def sorted_array_remove_def cong: conj_cong split del: if_split)
qed

text \<open>
  The unaligned \<^verbatim>\<open>kalloc_heap\<close> on the hole found: when the rest is too small for a hole
  of its own the block takes the whole hole, otherwise the rest becomes a new hole.
\<close>

lemma kalloc_carve_absorb:
  assumes "hdr_size h (free_list h ! i) - (sz + sizeof_header L + sizeof_footer L)
             < sizeof_header L + sizeof_footer L"
  shows "kalloc_carve L sz 0 i h =
     (free_list h ! i + sizeof_header L,
      h\<lparr>free_list := take i (free_list h) @ drop (Suc i) (free_list h),
        hdr_magic := (hdr_magic h)(free_list h ! i := HEAP_MAGIC L),
        hdr_allocated := (hdr_allocated h)(free_list h ! i := 1),
        hdr_size := (hdr_size h)(free_list h ! i := hdr_size h (free_list h ! i)),
        ftr_magic := (ftr_magic h)
          (free_list h ! i + sizeof_header L
             + (sz + (hdr_size h (free_list h ! i)
                       - (sz + sizeof_header L + sizeof_footer L))) := HEAP_MAGIC L),
        ftr_header := (ftr_header h)
          (free_list h ! i + sizeof_header L
             + (sz + (hdr_size h (free_list h ! i)
                       - (sz + sizeof_header L + sizeof_footer L))) := free_list h ! i)\<rparr>)"
  using assms
  by (simp add: kalloc_carve_def Let_def sorted_array_lookup_def sorted_array_remove_def)

lemma kalloc_carve_split:
  assumes pos: "free_list h ! i = pos"
    and big: "\<not> hdr_size h pos - (sz + sizeof_header L + sizeof_footer L)
             < sizeof_header L + sizeof_footer L"
    and rest: "hdr_size h pos - (sz + sizeof_header L + sizeof_footer L) \<noteq> 0"
  shows "fst (kalloc_carve L sz 0 i h) = pos + sizeof_header L"
    and "\<exists>lt. free_list (snd (kalloc_carve L sz 0 i h)) =
           insert_ordered lt (pos + sizeof_header L + sz + sizeof_footer L)
             (take i (free_list h) @ drop (Suc i) (free_list h))"
    and "hdr_size (snd (kalloc_carve L sz 0 i h)) =
           (hdr_size h)(pos := sz + sizeof_header L + sizeof_footer L,
              pos + sizeof_header L + sz + sizeof_footer L :=
                hdr_size h pos - (sz + sizeof_header L + sizeof_footer L))"
    and "hdr_allocated (snd (kalloc_carve L sz 0 i h)) =
           (hdr_allocated h)(pos := 1, pos + sizeof_header L + sz + sizeof_footer L := 0)"
    and "hdr_magic (snd (kalloc_carve L sz 0 i h)) =
           (hdr_magic h)(pos := HEAP_MAGIC L,
              pos + sizeof_header L + sz + sizeof_footer L := HEAP_MAGIC L)"
    and "end_address (snd (kalloc_carve L sz 0 i h)) = end_address h"
    and "t \<noteq> pos + sizeof_header L + sz \<Longrightarrow> t \<noteq> pos + hdr_size h pos - sizeof_footer L \<Longrightarrow>
         ftr_magic (snd (kalloc_carve L sz 0 i h)) t = ftr_magic h t
         \<and> ftr_header (snd (kalloc_carve L sz 0 i h)) t = ftr_header h t"
proof -
  show "fst (kalloc_carve L sz 0 i h) = pos + sizeof_header L"
    using pos big by (simp add: kalloc_carve_def Let_def sorted_array_lookup_def split_beta)
  show "\<exists>lt. free_list (snd (kalloc_carve L sz 0 i h)) =
           insert_ordered lt (pos + sizeof_header L + sz + sizeof_footer L)
             (take i (free_list h) @ drop (Suc i) (free_list h))"
    using pos big rest
    by (cases "pos + hdr_size h pos - sizeof_footer L < end_address h")
      (auto simp add: kalloc_carve_def Let_def sorted_array_lookup_def sorted_array_remove_def
        sorted_array_insert_def word_gt_0 split del: if_split)
  show "hdr_size (snd (kalloc_carve L sz 0 i h)) =
           (hdr_size h)(pos := sz + sizeof_header L + sizeof_footer L,
              pos + sizeof_header L + sz + sizeof_footer L :=
                hdr_size h pos - (sz + sizeof_header L + sizeof_footer L))"
    using pos big rest
    by (cases "pos + hdr_size h pos - sizeof_footer L < end_address h")
      (simp_all add: kalloc_carve_def Let_def sorted_array_lookup_def sorted_array_remove_def
        sorted_array_insert_def word_gt_0 split del: if_split)
  show "hdr_allocated (snd (kalloc_carve L sz 0 i h)) =
           (hdr_allocated h)(pos := 1, pos + sizeof_header L + sz + sizeof_footer L := 0)"
    using pos big rest
    by (cases "pos + hdr_size h pos - sizeof_footer L < end_address h")
      (simp_all add: kalloc_carve_def Let_def sorted_array_lookup_def sorted_array_remove_def
        sorted_array_insert_def word_gt_0 split del: if_split)
  show "hdr_magic (snd (kalloc_carve L sz 0 i h)) =
           (hdr_magic h)(pos := HEAP_MAGIC L,
              pos + sizeof_header L + sz + sizeof_footer L := HEAP_MAGIC L)"
    using pos big rest
    by (cases "pos + hdr_size h pos - sizeof_footer L < end_address h")
      (simp_all add: kalloc_carve_def Let_def sorted_array_lookup_def sorted_array_remove_def
        sorted_array_insert_def word_gt_0 split del: if_split)
  show "end_address (snd (kalloc_carve L sz 0 i h)) = end_address h"
    using pos big rest
    by (cases "pos + hdr_size h pos - sizeof_footer L < end_address h")
      (simp_all add: kalloc_carve_def Let_def sorted_array_lookup_def sorted_array_remove_def
        sorted_array_insert_def word_gt_0 split del: if_split)
  show "ftr_magic (snd (kalloc_carve L sz 0 i h)) t = ftr_magic h t
         \<and> ftr_header (snd (kalloc_carve L sz 0 i h)) t = ftr_header h t"
    if "t \<noteq> pos + sizeof_header L + sz" "t \<noteq> pos + hdr_size h pos - sizeof_footer L"
    using pos big rest that
    by (cases "pos + hdr_size h pos - sizeof_footer L < end_address h")
      (simp_all add: kalloc_carve_def Let_def sorted_array_lookup_def sorted_array_remove_def
        sorted_array_insert_def word_gt_0 split del: if_split)
qed

lemma unat_add_no_wrap:
  "unat a + unat b < 2 ^ 32 \<Longrightarrow> unat (a + b :: addr) = unat a + unat b"
  by (simp add: unat_word_ariths)


section \<open>The claims\<close>

subsection \<open>C1: termination of kalloc_heap\<close>

text \<open>
  C1 asks that every call of \<^verbatim>\<open>kalloc_heap\<close> return, with a pointer or with
  OutOfMemory, after finitely many retries. On the heap \<open>created\<close>, whose end is its
  maximum, a request of \<^verbatim>\<open>0x100000\<close> bytes finds no hole and \<^verbatim>\<open>heap_resize\<close>
  answers -1; \<^verbatim>\<open>kalloc_heap\<close> drops that answer and calls itself on a heap in which
  nothing the search reads has changed. The call does not return.
\<close>

theorem kalloc_heap_diverges_at_ceiling:
  "find_smallest_hole ilp32 (0x100000 + sizeof_header ilp32 + sizeof_footer ilp32) 0 created = - 1
   \<and> fst (heap_resize (end_address created - start_address created
             + (0x100000 + sizeof_header ilp32 + sizeof_footer ilp32)) created) = - 1
   \<and> kalloc_heap ilp32 0x100000 0 created = None"
proof -
  have nf: "find_smallest_hole ilp32 (0x100000 + sizeof_header ilp32 + sizeof_footer ilp32) 0
              created = - 1"
    by (simp add: created_eq kheap_eval)
  have rf: "fst (heap_resize (end_address created - start_address created
             + (0x100000 + sizeof_header ilp32 + sizeof_footer ilp32)) created) = - 1"
    by (simp add: created_eq kheap_eval)
  have ne: "fst (endmost_loop (free_list created) 0 (- 1, 0)) \<noteq> - 1"
    by (simp add: created_eq)
  from nf rf kalloc_heap_failed_growth [OF nf rf ne] show ?thesis
    by simp
qed

subsection \<open>C2: OutOfMemory\<close>

text \<open>
  C2 asks that \<^verbatim>\<open>kalloc_heap\<close> return OutOfMemory exactly when the request exceeds what
  the heap can hold after maximal growth, the failure of \<^verbatim>\<open>heap_resize\<close> being passed on
  to the caller. The function has no such return. Whenever the search finds no hole,
  \<^verbatim>\<open>heap_resize\<close> fails and the free list has an entry, the call does not return at all:
  the failure is dropped and the function recurses for ever.
\<close>

theorem growth_failure_is_not_reported:
  assumes "find_smallest_hole L (sz + sizeof_header L + sizeof_footer L) page_align h = - 1"
    and "fst (heap_resize (end_address h - start_address h
                 + (sz + sizeof_header L + sizeof_footer L)) h) = - 1"
    and "fst (endmost_loop (free_list h) 0 (- 1, 0)) \<noteq> - 1"
  shows "kalloc_heap L sz page_align h = None"
  using assms by (rule kalloc_heap_failed_growth)

theorem growth_failure_is_not_reported_witness:
  "find_smallest_hole ilp32 (0x200000 + sizeof_header ilp32 + sizeof_footer ilp32) 1 heap_a = - 1
   \<and> fst (heap_resize (end_address heap_a - start_address heap_a
             + (0x200000 + sizeof_header ilp32 + sizeof_footer ilp32)) heap_a) = - 1
   \<and> fst (endmost_loop (free_list heap_a) 0 (- 1, 0)) \<noteq> - 1
   \<and> kalloc_heap ilp32 0x200000 1 heap_a = None"
proof -
  have nf: "find_smallest_hole ilp32 (0x200000 + sizeof_header ilp32 + sizeof_footer ilp32) 1
              heap_a = - 1"
    by (simp add: heap_a_eq kheap_eval)
  have rf: "fst (heap_resize (end_address heap_a - start_address heap_a
             + (0x200000 + sizeof_header ilp32 + sizeof_footer ilp32)) heap_a) = - 1"
    by (simp add: heap_a_eq kheap_eval)
  have ne: "fst (endmost_loop (free_list heap_a) 0 (- 1, 0)) \<noteq> - 1"
    by (simp add: heap_a_eq)
  from nf rf ne growth_failure_is_not_reported [OF nf rf ne] show ?thesis
    by simp
qed

subsection \<open>C3: what add_hole writes\<close>

text \<open>
  C3 asks that \<^verbatim>\<open>add_hole(start, end, heap)\<close> write a free header of size
  \<open>end - start\<close> at \<open>start\<close> and a footer at the end of the block that points back to
  the header, and insert the header into the free list. The function writes the header
  and inserts it, and writes no footer at all: both footer stores of the memory are the
  same after the call as before it, for every heap and every range.
\<close>

theorem add_hole_writes_no_footer:
  "ftr_magic (add_hole L start endp h) = ftr_magic h
   \<and> ftr_header (add_hole L start endp h) = ftr_header h
   \<and> hdr_size (add_hole L start endp h) start = endp - start
   \<and> hdr_allocated (add_hole L start endp h) start = 0
   \<and> hdr_magic (add_hole L start endp h) start = HEAP_MAGIC L"
  by (simp add: add_hole_def sorted_array_insert_def Let_def)

subsection \<open>C4: the magic values on deallocation\<close>

text \<open>
  C4 asks that \<^verbatim>\<open>kfree_heap\<close> check the magic values of the header and the footer of
  the block before it touches the neighbor blocks, and abort on a mismatch. Both checks
  are comments in the source. In \<open>heap_corrupt\<close> the block a has neither magic value;
  \<^verbatim>\<open>kfree_heap\<close> frees it all the same: the header is marked free and enters the free
  list.
\<close>

theorem kfree_heap_accepts_bad_magic:
  "hdr_magic heap_corrupt 0x101000 \<noteq> HEAP_MAGIC ilp32
   \<and> hdr_size heap_corrupt 0x101000 = 84
   \<and> ftr_magic heap_corrupt (0x101000 + 84 - sizeof_footer ilp32) \<noteq> HEAP_MAGIC ilp32
   \<and> hdr_allocated heap_corrupt 0x101000 = 1
   \<and> free_list heap_corrupt = [0x1010A8]
   \<and> hdr_allocated (kfree_heap ilp32 0x10100C heap_corrupt) 0x101000 = 0
   \<and> free_list (kfree_heap ilp32 0x10100C heap_corrupt) = [0x101000, 0x1010A8]"
  by (simp add: heap_corrupt_def heap_ab_eq kheap_eval)

subsection \<open>C5: no two adjacent free blocks\<close>

text \<open>
  C5 asks that after any sequence of allocations and deallocations on a created heap
  the scan of the region never meet two consecutive free blocks. After a, b, c and d are
  allocated and b, a and c are freed, the scan from the start address meets a, free and of
  size 168, then c, free, then d and the last hole: a and c are adjacent and both free, and
  c is not in the free list. (When a absorbed b, the footer of b kept pointing to the header
  of b; freeing c then merged c into that header.)
\<close>

theorem freeing_leaves_adjacent_free_blocks:
  "kalloc_heap ilp32 64 0 created = Some (0x10100C, heap_a)
   \<and> kalloc_heap ilp32 64 0 heap_a = Some (0x101060, heap_ab)
   \<and> kalloc_heap ilp32 64 0 heap_ab = Some (0x1010B4, heap_abc)
   \<and> kalloc_heap ilp32 64 0 heap_abc = Some (0x101108, heap_abcd)
   \<and> heap_bac_freed
        = kfree_heap ilp32 0x1010B4 (kfree_heap ilp32 0x10100C (kfree_heap ilp32 0x101060 heap_abcd))
   \<and> scan_blocks 8 heap_bac_freed (start_address heap_bac_freed)
        = [0x101000, 0x1010A8, 0x1010FC, 0x101150]
   \<and> map (hdr_allocated heap_bac_freed) [0x101000, 0x1010A8, 0x1010FC, 0x101150] = [0, 0, 1, 0]
   \<and> adjacent_free heap_bac_freed (scan_blocks 8 heap_bac_freed (start_address heap_bac_freed))
   \<and> free_list heap_bac_freed = [0x101000, 0x101150]"
proof -
  have fuel: "(8 :: nat) = Suc (Suc (Suc (Suc (Suc (Suc (Suc (Suc 0)))))))"
    by simp
  have scan: "scan_blocks 8 heap_bac_freed (start_address heap_bac_freed)
        = [0x101000, 0x1010A8, 0x1010FC, 0x101150]"
    by (simp only: fuel scan_blocks.simps) (simp add: heap_bac_freed_eq)
  have "adjacent_free heap_bac_freed [0x101000, 0x1010A8, 0x1010FC, 0x101150]"
    by (simp add: heap_bac_freed_eq)
  with scan have adj:
    "adjacent_free heap_bac_freed (scan_blocks 8 heap_bac_freed (start_address heap_bac_freed))"
    by simp
  have flags:
    "map (hdr_allocated heap_bac_freed) [0x101000, 0x1010A8, 0x1010FC, 0x101150] = [0, 0, 1, 0]"
    by (simp add: heap_bac_freed_eq)
  have holes: "free_list heap_bac_freed = [0x101000, 0x101150]"
    by (simp add: heap_bac_freed_eq)
  show ?thesis
    by (intro conjI kalloc_created kalloc_heap_a kalloc_heap_ab kalloc_heap_abc
        heap_bac_freed_def scan flags adj holes)
qed

subsection \<open>C6: page-aligned allocations\<close>

text \<open>
  C6 asks that a successful page-aligned allocation return a page-aligned pointer with
  at least the requested number of usable bytes between the pointer and the block's
  footer. On the heap \<open>created\<close>, whose only hole spans \<^verbatim>\<open>[0x101000, 0x200000)\<close>, the
  request of \<^verbatim>\<open>0xFEFEC\<close> bytes succeeds with the pointer \<^verbatim>\<open>0x102000\<close>; the footer of
  the block is written at \<^verbatim>\<open>0x200FEC\<close>, beyond the end of the heap, so the last
  \<^verbatim>\<open>0xFEC\<close> bytes between pointer and footer are not bytes of the heap.
\<close>

theorem aligned_block_overruns_heap:
  "kalloc_heap ilp32 0xFEFEC 1 created = Some (0x102000, heap_aligned)
   \<and> (0x102000 :: addr) mod PAGE_SIZE = 0
   \<and> hdr_size created 0x101000 = 0xFF000
   \<and> end_address heap_aligned = 0x200000
   \<and> hdr_size heap_aligned (0x102000 - sizeof_header ilp32) = 0xFF000
   \<and> hdr_allocated heap_aligned (0x102000 - sizeof_header ilp32) = 1
   \<and> ftr_header heap_aligned (0x102000 + 0xFEFEC) = 0x102000 - sizeof_header ilp32
   \<and> ftr_magic heap_aligned (0x102000 + 0xFEFEC) = HEAP_MAGIC ilp32
   \<and> end_address heap_aligned < 0x102000 + 0xFEFEC"
proof -
  have "kalloc_heap ilp32 0xFEFEC 1 created = Some (0x102000, heap_aligned)"
    by (subst kalloc_heap.simps) (simp add: heap_aligned_def created_eq kheap_eval)
  then show ?thesis
    by (simp add: heap_aligned_def created_eq kheap_eval)
qed

subsection \<open>C7: the effective size in the aligned search\<close>

text \<open>
  C7 asks that the aligned search judge a hole by its size minus the padding that
  brings the payload start up to the next page boundary. The hole of \<open>created\<close> starts at
  \<^verbatim>\<open>0x101000\<close>, its payload at \<^verbatim>\<open>0x10100C\<close>: the padding is \<^verbatim>\<open>0xFF4\<close> and the effective
  size \<^verbatim>\<open>0xFE00C\<close>, less than the \<^verbatim>\<open>0xFF000\<close> asked for, so the search of the
  specification finds nothing. \<^verbatim>\<open>find_smallest_hole\<close> returns the index 0: its test
  \<^verbatim>\<open>(location+sizeof(struct header)) & (0xFFFFF000 != 0)\<close> looks at the lowest bit of the
  payload address only, and subtracts no padding when that address is even.
\<close>

theorem find_smallest_hole_ignores_padding:
  "free_list created = [0x101000]
   \<and> padding_spec ilp32 0x101000 = 0xFF4
   \<and> effective_size_spec ilp32 created 0x101000 = 0xFE00C
   \<and> find_hole_spec ilp32 0xFF000 created = - 1
   \<and> find_smallest_hole ilp32 0xFF000 1 created = 0"
  by (simp add: created_eq kheap_eval find_hole_spec_def effective_size_spec_def
      padding_spec_def)

subsection \<open>C8: contraction on deallocation\<close>

text \<open>
  C8 asks that a freed block that ends at the end of the heap be shrunk by the number of
  bytes the contraction removes, with its footer rewritten at the new end, and that a
  block the contraction consumes entirely not be inserted into the free list.
  Freeing b in \<open>heap_ab\<close> merges b with the last hole (\<^verbatim>\<open>0xFEFAC\<close> bytes) and moves the end
  of the heap from \<^verbatim>\<open>0x200000\<close> to \<^verbatim>\<open>0x102000\<close>, which removes \<^verbatim>\<open>0xFE000\<close> bytes; the size
  of b becomes \<^verbatim>\<open>0xFFFFFFAC\<close>, not \<^verbatim>\<open>0xFAC\<close>, and the footer is written at \<^verbatim>\<open>0x100FF8\<close>,
  below the start of the heap, not at \<^verbatim>\<open>0x101FF8\<close>. Freeing a in \<open>heap_a\<close> moves the end of
  the heap down to its start, and the block is inserted into the free list nevertheless.
\<close>

theorem kfree_heap_contraction_wrong_size:
  "end_address heap_ab = 0x200000
   \<and> end_address (kfree_heap ilp32 0x101060 heap_ab) = 0x102000
   \<and> hdr_size (kfree_heap ilp32 0x101060 heap_ab) 0x101054 = 0xFFFFFFAC
   \<and> ftr_header (kfree_heap ilp32 0x101060 heap_ab) 0x100FF8 = 0x101054
   \<and> ftr_magic (kfree_heap ilp32 0x101060 heap_ab) 0x101FF8 = 0
   \<and> free_list (kfree_heap ilp32 0x101060 heap_ab) = [0x101054]
   \<and> end_address (kfree_heap ilp32 0x10100C heap_a) = start_address (kfree_heap ilp32 0x10100C heap_a)
   \<and> free_list (kfree_heap ilp32 0x10100C heap_a) = [0x101000]
   \<and> hdr_size (kfree_heap ilp32 0x10100C heap_a) 0x101000 = 0xFF000"
  by (simp add: heap_ab_eq heap_a_eq kheap_eval)

subsection \<open>C9: allocation followed by deallocation\<close>

text \<open>
  C9 asks that an allocation that does not grow the heap, followed by the deallocation
  of the pointer it returned, leave the number of holes and the total of free bytes as
  they were, for every heap. In \<open>heap_a\<close> there is one hole of \<^verbatim>\<open>0xFEFAC\<close> bytes, which
  ends at the end of the heap. Allocating 64 bytes finds it at index 0 and leaves the end
  of the heap alone; freeing them merges the block with the rest of the hole, and as the
  merged block reaches the end of the heap, \<^verbatim>\<open>kfree_heap\<close> contracts the heap, to
  \<^verbatim>\<open>0x102000\<close>, and changes the size of the block: the total of free bytes is no longer
  \<^verbatim>\<open>0xFEFAC\<close>.
\<close>

theorem alloc_free_round_trip_changes_free_bytes:
  "find_smallest_hole ilp32 (64 + sizeof_header ilp32 + sizeof_footer ilp32) 0 heap_a = 0
   \<and> kalloc_heap ilp32 64 0 heap_a = Some (0x101060, heap_ab)
   \<and> end_address heap_ab = end_address heap_a
   \<and> hole_count heap_a = 1
   \<and> total_free_bytes heap_a = 0xFEFAC
   \<and> 0x1010A8 + hdr_size heap_ab 0x1010A8 = end_address heap_ab
   \<and> end_address (kfree_heap ilp32 0x101060 heap_ab) = 0x102000
   \<and> hole_count (kfree_heap ilp32 0x101060 heap_ab) = 1
   \<and> total_free_bytes (kfree_heap ilp32 0x101060 heap_ab) = 0xFFFFFFAC"
proof -
  have "find_smallest_hole ilp32 (64 + sizeof_header ilp32 + sizeof_footer ilp32) 0 heap_a = 0"
    by (simp add: heap_a_eq kheap_eval)
  moreover have "hole_count heap_a = 1 \<and> total_free_bytes heap_a = 0xFEFAC
      \<and> end_address heap_ab = end_address heap_a
      \<and> 0x1010A8 + hdr_size heap_ab 0x1010A8 = end_address heap_ab"
    by (simp add: heap_a_eq heap_ab_eq hole_count_def total_free_bytes_def)
  moreover have "hole_count (kfree_heap ilp32 0x101060 heap_ab) = 1
      \<and> total_free_bytes (kfree_heap ilp32 0x101060 heap_ab) = 0xFFFFFFAC
      \<and> end_address (kfree_heap ilp32 0x101060 heap_ab) = 0x102000"
    by (simp add: heap_ab_eq kheap_eval hole_count_def total_free_bytes_def)
  ultimately show ?thesis
    by (simp add: kalloc_heap_a)
qed


text \<open>
  C9, restricted to what holds: the round trip restores the number of holes and the total of free bytes
  when the deallocation does not contract the heap, on a heap that is well formed around
  the hole found. Precisely, for every heap and every size \<open>sz\<close> for which the unaligned
  search finds a hole at index \<open>i\<close>, at address \<open>pos\<close>:
  \<^item> the size of a header is not 0 and \<open>sz\<close> plus the sizes of header and footer does not
    wrap around, nor does \<open>pos\<close> plus the size of the hole;
  \<^item> a footer with the magic value just below the hole belongs to a header that is marked
    allocated and lies below the hole;
  \<^item> the header just above the hole is not a free header;
  \<^item> the hole does not end at \<^verbatim>\<open>end_address\<close>, so that \<^verbatim>\<open>kfree_heap\<close> does not contract;
  \<^item> every other entry of the free list lies below the hole or above it.
  Then \<^verbatim>\<open>kalloc_heap\<close> returns, the end of the heap is where it was, and after
  \<^verbatim>\<open>kfree_heap\<close> on the pointer returned the free list has as many holes and as many
  free bytes as before. Under these hypotheses every struct the two calls read or write
  lies in the hole, just below it, just above it or in another hole, and no two of them
  overlap byte-wise. Nothing is said of a deallocation that contracts the heap.
\<close>

theorem round_trip_without_contraction:
  assumes found: "find_smallest_hole L (sz + sizeof_header L + sizeof_footer L) 0 h = int i"
    and pos: "pos = sorted_array_lookup i h"
    and sizes: "0 < unat (sizeof_header L)"
      "unat sz + unat (sizeof_header L) + unat (sizeof_footer L) < 2 ^ 32"
    and inside: "unat pos + unat (hdr_size h pos) < 2 ^ 32"
    and before: "ftr_magic h (pos - sizeof_footer L) = HEAP_MAGIC L \<Longrightarrow>
        hdr_allocated h (ftr_header h (pos - sizeof_footer L)) \<noteq> 0
        \<and> unat (ftr_header h (pos - sizeof_footer L)) + unat (sizeof_header L) \<le> unat pos"
    and after: "\<not> (hdr_magic h (pos + hdr_size h pos) = HEAP_MAGIC L
                  \<and> hdr_allocated h (pos + hdr_size h pos) = 0)"
    and inner: "pos + hdr_size h pos \<noteq> end_address h"
    and others: "\<forall>a \<in> set (free_list h). a = pos
        \<or> unat a + unat (sizeof_header L) \<le> unat pos
        \<or> unat pos + unat (hdr_size h pos) \<le> unat a"
  shows "\<exists>p h1. kalloc_heap L sz 0 h = Some (p, h1)
     \<and> end_address h1 = end_address h
     \<and> hole_count (kfree_heap L p h1) = hole_count h
     \<and> total_free_bytes (kfree_heap L p h1) = total_free_bytes h"
proof -
  let ?HS = "sizeof_header L" and ?FS = "sizeof_footer L" and ?M = "HEAP_MAGIC L"
  let ?ns = "sz + ?HS + ?FS"
  let ?S = "hdr_size h pos"
  let ?xs = "free_list h"
  let ?ys = "take i ?xs @ drop (Suc i) ?xs"
  let ?p = "fst (kalloc_carve L sz 0 i h)" and ?h1 = "snd (kalloc_carve L sz 0 i h)"
  let ?f = "\<lambda>a. unat (hdr_size h a)"
  have posi: "free_list h ! i = pos"
    by (simp add: pos sorted_array_lookup_def)
  from find_smallest_hole_found [OF found] posi
  have i: "i < length ?xs" and fits: "?ns \<le> ?S"
    by (simp_all add: hole_fits_def)
  have uns: "unat ?ns = unat sz + unat ?HS + unat ?FS"
    using sizes by (simp add: unat_add_no_wrap)
  have uhf: "unat (?HS + ?FS) = unat ?HS + unat ?FS"
    using sizes by (simp add: unat_add_no_wrap)
  have ns_le: "unat ?ns \<le> unat ?S"
    using fits by (simp add: word_le_nat_alt)
  have S0: "?S \<noteq> 0"
    using ns_le uns sizes by (auto simp: unat_eq_0)
  have ns0: "?ns \<noteq> 0"
    using uns sizes by (metis add_is_0 less_numeral_extra(3) unat_eq_0)
  have udiff: "unat (?S - ?ns) = unat ?S - unat ?ns"
    using fits by (rule unat_sub)
  have uph: "unat (pos + ?HS) = unat pos + unat ?HS"
    using inside ns_le uns by (simp add: unat_add_no_wrap)
  have p0: "pos + ?HS \<noteq> 0"
    using uph sizes by (metis add_is_0 less_numeral_extra(3) unat_eq_0)
  have alloc: "kalloc_heap L sz 0 h = Some (?p, ?h1)"
    by (subst kalloc_heap.simps) (simp add: found)
  have count0: "Suc (length ?ys) = length ?xs"
    using i by simp
  have sum0: "sum_list (map ?f ?ys) + unat ?S = sum_list (map ?f ?xs)"
    using remove_at_sum [OF i, of ?f] posi by simp
  have tminus: "pos - ?FS \<noteq> pos + ?S - ?FS"
    using S0 by simp
  have main: "end_address ?h1 = end_address h
     \<and> hole_count (kfree_heap L ?p ?h1) = hole_count h
     \<and> total_free_bytes (kfree_heap L ?p ?h1) = total_free_bytes h"
  proof (cases "?S - ?ns < ?HS + ?FS")
    case True
    let ?bf = "pos + ?HS + (sz + (?S - ?ns))"
    note carve = kalloc_carve_absorb [of h i sz L, unfolded posi, OF True]
    have f: "?p = pos + ?HS" "free_list ?h1 = ?ys" "hdr_size ?h1 = hdr_size h"
      "hdr_allocated ?h1 = (hdr_allocated h)(pos := 1)"
      "hdr_magic ?h1 = (hdr_magic h)(pos := ?M)"
      "ftr_magic ?h1 = (ftr_magic h)(?bf := ?M)"
      "ftr_header ?h1 = (ftr_header h)(?bf := pos)"
      "end_address ?h1 = end_address h"
      by (simp_all add: carve)
    have bf: "?bf = pos + ?S - ?FS"
      by simp
    have k4: "ftr_header ?h1 (pos - ?FS) \<noteq> pos
        \<and> hdr_allocated ?h1 (ftr_header ?h1 (pos - ?FS)) \<noteq> 0"
      if "ftr_magic ?h1 (pos - ?FS) = ?M"
    proof -
      from that tminus bf have "ftr_magic h (pos - ?FS) = ?M"
        by (simp add: f)
      from before [OF this] sizes have "hdr_allocated h (ftr_header h (pos - ?FS)) \<noteq> 0"
        and "ftr_header h (pos - ?FS) \<noteq> pos"
        by auto
      with tminus bf show ?thesis
        by (simp add: f)
    qed
    have k5: "pos + ?S \<noteq> pos \<and> hdr_allocated ?h1 (pos + ?S) \<noteq> 0"
      if "hdr_magic ?h1 (pos + ?S) = ?M"
      using that after S0 by (simp add: f)
    have R: "kfree_heap L ?p ?h1 =
        sorted_array_insert pos (?h1\<lparr>hdr_allocated := (hdr_allocated ?h1)(pos := 0)\<rparr>)"
    proof (rule kfree_heap_plain [where nxt = "pos + ?S"])
      show "?p \<noteq> 0" using p0 by (simp add: f)
      show "?p - ?HS = pos" by (simp add: f)
      show "pos + hdr_size ?h1 pos = pos + ?S" by (simp add: f)
      show "pos + ?S \<noteq> end_address ?h1" using inner by (simp add: f)
    qed (use k4 k5 in blast)+
    have "\<exists>lt. free_list (kfree_heap L ?p ?h1) = insert_ordered lt pos ?ys"
      unfolding R by (simp add: sorted_array_insert_def f(2)) blast
    then obtain lt where fl: "free_list (kfree_heap L ?p ?h1) = insert_ordered lt pos ?ys"
      by blast
    have hs: "hdr_size (kfree_heap L ?p ?h1) = hdr_size h"
      unfolding R by (simp add: sorted_array_insert_def f(3))
    have cnt: "hole_count (kfree_heap L ?p ?h1) = hole_count h"
      using count0 by (simp only: hole_count_def fl insert_ordered_length)
    have "total_free_bytes (kfree_heap L ?p ?h1) = unat ?S + sum_list (map ?f ?ys)"
      by (simp only: total_free_bytes_def fl hs insert_ordered_sum)
    also have "\<dots> = total_free_bytes h"
      unfolding total_free_bytes_def using sum0 by linarith
    finally show ?thesis
      using cnt f(8) by blast
  next
    case False
    let ?q = "pos + ?HS + sz + ?FS"
    have ge: "unat ?HS + unat ?FS \<le> unat ?S - unat ?ns"
      using False uhf udiff by (simp add: word_less_nat_alt)
    have rest: "?S - ?ns \<noteq> 0"
      using ge udiff sizes by (auto simp: unat_eq_0)
    note g = kalloc_carve_split [OF posi False rest]
    have q: "?q = pos + ?ns"
      by simp
    have uq: "unat ?q = unat pos + unat ?ns"
      unfolding q using inside ns_le by (simp add: unat_add_no_wrap)
    have q_pos: "?q \<noteq> pos"
    proof
      assume "?q = pos"
      then have "unat ?q = unat pos"
        by (rule arg_cong)
      with uq uns sizes show False
        by simp
    qed
    have tq: "pos - ?FS \<noteq> pos + ?HS + sz"
    proof
      assume "pos - ?FS = pos + ?HS + sz"
      then have "pos - ?FS + ?FS = ?q"
        by (rule arg_cong [where f = "\<lambda>x. x + ?FS"])
      then have "pos = ?q"
        by (simp only: diff_add_cancel)
      with q_pos show False
        by simp
    qed
    have ft: "ftr_magic ?h1 (pos - ?FS) = ftr_magic h (pos - ?FS)"
      "ftr_header ?h1 (pos - ?FS) = ftr_header h (pos - ?FS)"
      using g(7) [OF tq tminus] by simp_all
    have k4: "ftr_header ?h1 (pos - ?FS) \<noteq> pos
        \<and> hdr_allocated ?h1 (ftr_header ?h1 (pos - ?FS)) \<noteq> 0"
      if "ftr_magic ?h1 (pos - ?FS) = ?M"
    proof -
      from that have "ftr_magic h (pos - ?FS) = ?M"
        by (simp add: ft)
      from before [OF this] sizes uq have "hdr_allocated h (ftr_header h (pos - ?FS)) \<noteq> 0"
        and "ftr_header h (pos - ?FS) \<noteq> pos" and "ftr_header h (pos - ?FS) \<noteq> ?q"
        by auto
      then show ?thesis
        by (simp add: ft g(4))
    qed
    let ?j = "index_loop ?q (free_list ?h1) 0"
    have R: "kfree_heap L ?p ?h1 =
        sorted_array_insert pos
          (sorted_array_remove ?j
            (?h1\<lparr>hdr_allocated := (hdr_allocated ?h1)(pos := 0),
                 hdr_size := (hdr_size ?h1)(pos := hdr_size ?h1 pos + hdr_size ?h1 ?q)\<rparr>))"
    proof (rule kfree_heap_forward)
      show "?p \<noteq> 0" using p0 by (simp add: g(1))
      show "?p - ?HS = pos" by (simp add: g(1))
      show "pos + hdr_size ?h1 pos = ?q" using q_pos by (simp add: g(3))
      show "hdr_magic ?h1 ?q = ?M" by (simp add: g(5))
      show "?q \<noteq> pos" by (rule q_pos)
      show "hdr_allocated ?h1 ?q = 0" by (simp add: g(4))
      show "?q + hdr_size ?h1 ?q \<noteq> end_address ?h1" using inner by (simp add: g(3) g(6))
    qed (use k4 in blast)
    from g(2) obtain lt where fl1: "free_list ?h1 = insert_ordered lt ?q ?ys"
      by blast
    have qnot: "?q \<notin> set ?ys"
    proof
      assume "?q \<in> set ?ys"
      with remove_at_set [of i ?xs] have "?q \<in> set ?xs"
        by blast
      with others have "?q = pos \<or> unat ?q + unat ?HS \<le> unat pos
          \<or> unat pos + unat ?S \<le> unat ?q"
        by blast
      with q_pos uq uns ge sizes show False
        by auto
    qed
    have "\<exists>lt'. free_list (kfree_heap L ?p ?h1) = insert_ordered lt' pos ?ys"
      unfolding R using insert_then_remove [OF qnot, of lt]
      by (simp add: sorted_array_insert_def sorted_array_remove_def fl1) blast
    then obtain lt' where fl: "free_list (kfree_heap L ?p ?h1) = insert_ordered lt' pos ?ys"
      by blast
    have hs: "hdr_size (kfree_heap L ?p ?h1) = (hdr_size h)(?q := ?S - ?ns, pos := ?S)"
      unfolding R using q_pos
      by (simp add: sorted_array_insert_def sorted_array_remove_def g(3) fun_upd_twist)
    let ?g = "\<lambda>a. unat (hdr_size (kfree_heap L ?p ?h1) a)"
    have mg: "map ?g ?ys = map ?f ?ys"
    proof (rule map_cong [OF refl])
      fix a assume "a \<in> set ?ys"
      with qnot have "a \<noteq> ?q"
        by blast
      then show "?g a = ?f a"
        by (simp add: hs)
    qed
    have gpos: "?g pos = unat ?S"
      by (simp add: hs)
    have cnt: "hole_count (kfree_heap L ?p ?h1) = hole_count h"
      using count0 by (simp only: hole_count_def fl insert_ordered_length)
    have "total_free_bytes (kfree_heap L ?p ?h1) = ?g pos + sum_list (map ?g ?ys)"
      by (simp only: total_free_bytes_def fl insert_ordered_sum)
    also have "\<dots> = unat ?S + sum_list (map ?f ?ys)"
      by (simp only: mg gpos)
    also have "\<dots> = total_free_bytes h"
      unfolding total_free_bytes_def using sum0 by linarith
    finally show ?thesis
      using cnt g(6) by blast
  qed
  show ?thesis
    using alloc main by blast
qed

theorem round_trip_without_contraction_witness:
  "find_smallest_hole ilp32 (32 + sizeof_header ilp32 + sizeof_footer ilp32) 0 heap_acd = 0
   \<and> sorted_array_lookup 0 heap_acd = 0x101054
   \<and> free_list heap_acd = [0x101054, 0x101150]
   \<and> hdr_size heap_acd 0x101054 = 84
   \<and> 0x101054 + hdr_size heap_acd 0x101054 \<noteq> end_address heap_acd
   \<and> hole_count heap_acd = 2
   \<and> total_free_bytes heap_acd = 84 + 0xFEEB0
   \<and> (\<exists>p h1. kalloc_heap ilp32 32 0 heap_acd = Some (p, h1)
         \<and> end_address h1 = end_address heap_acd
         \<and> hole_count (kfree_heap ilp32 p h1) = hole_count heap_acd
         \<and> total_free_bytes (kfree_heap ilp32 p h1) = total_free_bytes heap_acd)"
proof -
  have found: "find_smallest_hole ilp32 (32 + sizeof_header ilp32 + sizeof_footer ilp32) 0
                 heap_acd = int 0"
    by (simp add: heap_acd_eq kheap_eval)
  have pos: "0x101054 = sorted_array_lookup 0 heap_acd"
    by (simp add: heap_acd_eq sorted_array_lookup_def)
  have sizes: "0 < unat (sizeof_header ilp32)"
    "unat (32 :: addr) + unat (sizeof_header ilp32) + unat (sizeof_footer ilp32) < 2 ^ 32"
    by (simp_all add: ilp32_def)
  have inside: "unat (0x101054 :: addr) + unat (hdr_size heap_acd 0x101054) < 2 ^ 32"
    by (simp add: heap_acd_eq)
  have before: "hdr_allocated heap_acd (ftr_header heap_acd (0x101054 - sizeof_footer ilp32)) \<noteq> 0
      \<and> unat (ftr_header heap_acd (0x101054 - sizeof_footer ilp32)) + unat (sizeof_header ilp32)
          \<le> unat (0x101054 :: addr)"
    by (simp add: heap_acd_eq ilp32_def)
  have after: "\<not> (hdr_magic heap_acd (0x101054 + hdr_size heap_acd 0x101054) = HEAP_MAGIC ilp32
      \<and> hdr_allocated heap_acd (0x101054 + hdr_size heap_acd 0x101054) = 0)"
    by (simp add: heap_acd_eq ilp32_def)
  have inner: "0x101054 + hdr_size heap_acd 0x101054 \<noteq> end_address heap_acd"
    by (simp add: heap_acd_eq)
  have others: "\<forall>a \<in> set (free_list heap_acd). a = 0x101054
      \<or> unat a + unat (sizeof_header ilp32) \<le> unat (0x101054 :: addr)
      \<or> unat (0x101054 :: addr) + unat (hdr_size heap_acd 0x101054) \<le> unat a"
    by (simp add: heap_acd_eq ilp32_def)
  have facts: "sorted_array_lookup 0 heap_acd = 0x101054
      \<and> free_list heap_acd = [0x101054, 0x101150] \<and> hdr_size heap_acd 0x101054 = 84
      \<and> hole_count heap_acd = 2 \<and> total_free_bytes heap_acd = 84 + 0xFEEB0"
    by (simp add: heap_acd_eq sorted_array_lookup_def hole_count_def total_free_bytes_def)
  from found facts inner
    round_trip_without_contraction [OF found pos sizes inside before after inner others]
  show ?thesis
    by simp
qed


subsection \<open>C10: the start address of a created heap\<close>





end
